theory Spec2Isabelle
  imports Main "HOL-Library.Word"
begin

unbundle bit_operations_syntax

section \<open>Machine types and platform constants\<close>

text \<open>
  The library is C and C++ for Linux. The network build (the backend whose source is
  \<^verbatim>\<open>iccom_send_data_nocopy\<close> / \<^verbatim>\<open>iccom_receive_data_nocopy\<close> over \<^verbatim>\<open>read\<close> and
  \<^verbatim>\<open>write\<close>) targets x86-64, so \<^verbatim>\<open>size_t\<close> is a 64-bit word, \<^verbatim>\<open>unsigned int\<close> and
  \<^verbatim>\<open>__u32\<close> are 32-bit words and a \<^verbatim>\<open>char\<close> is a byte. Values of C type \<^verbatim>\<open>int\<close> that
  carry return codes are HOL integers; every conversion between widths is written
  out where it happens.
\<close>

type_synonym byte = "8 word"
type_synonym u32 = "32 word"
type_synonym size_t = "64 word"

text \<open>The \<^verbatim>\<open>errno\<close> numbers of Linux that the library returns negated.\<close>

definition E2BIG :: int where "E2BIG = 7"
definition EAGAIN :: int where "EAGAIN = 11"
definition EFAULT :: int where "EFAULT = 14"
definition EINVAL :: int where "EINVAL = 22"
definition ENFILE :: int where "ENFILE = 23"
definition EPIPE :: int where "EPIPE = 32"
definition EBADE :: int where "EBADE = 52"

subsection \<open>Build-time configuration of \<^verbatim>\<open>iccom.h\<close>\<close>

definition ICCOM_SOCKET_MAX_MESSAGE_SIZE_BYTES :: size_t where
  "ICCOM_SOCKET_MAX_MESSAGE_SIZE_BYTES = 4096"

definition ICCOM_MIN_CHANNEL :: int where "ICCOM_MIN_CHANNEL = 0"
definition ICCOM_MAX_CHANNEL :: int where "ICCOM_MAX_CHANNEL = 0x7FFF"

subsection \<open>Channel areas of \<^verbatim>\<open>utils.h\<close>\<close>

definition ICCOM_CHANNEL_AREA_PRIME :: int where "ICCOM_CHANNEL_AREA_PRIME = 1"
definition ICCOM_CHANNEL_AREA_LOOPBACK :: int where "ICCOM_CHANNEL_AREA_LOOPBACK = 2"
definition ICCOM_CHANNEL_AREA_ANY :: int where "ICCOM_CHANNEL_AREA_ANY = 3"

section \<open>Channel validation\<close>

text \<open>
  \<^verbatim>\<open>iccom_channel_verify\<close> of \<^verbatim>\<open>iccom.h\<close> takes the channel as an \<^verbatim>\<open>int\<close> and accepts
  the primary and the loopback area together.
\<close>

definition iccom_channel_verify :: "int \<Rightarrow> int" where
  "iccom_channel_verify channel =
     (let range_size = ICCOM_MAX_CHANNEL - ICCOM_MIN_CHANNEL + 1 in
      if channel < ICCOM_MIN_CHANNEL \<or> channel > ICCOM_MAX_CHANNEL + range_size
      then - EINVAL else 0)"

text \<open>
  \<^verbatim>\<open>__iccom_ch_area_name\<close> and \<^verbatim>\<open>__iccom_channel_verify\<close> of \<^verbatim>\<open>utils.c\<close> (a HOL name
  cannot start with an underscore, hence the prefix \<open>uu_\<close>). The channel is an
  \<^verbatim>\<open>unsigned int\<close>; the \<^verbatim>\<open>int\<close> bounds it is compared with are converted to
  \<^verbatim>\<open>unsigned int\<close> by the usual arithmetic conversions. The comment is a nullable
  string: it only selects which diagnostic line is printed, so the three tails of
  the function differ in their log output alone, which the model returns beside the
  result.
\<close>

definition uu_iccom_ch_area_name :: "int \<Rightarrow> string" where
  "uu_iccom_ch_area_name area_id =
     (if area_id = ICCOM_CHANNEL_AREA_PRIME then ''prime''
      else if area_id = ICCOM_CHANNEL_AREA_LOOPBACK then ''loopback''
      else if area_id = ICCOM_CHANNEL_AREA_ANY then ''any''
      else ''unknown'')"

datatype log_line = Out_of_range u32 "string option" string

definition uu_iccom_channel_verify :: "u32 \<Rightarrow> int \<Rightarrow> string option \<Rightarrow> int \<times> log_line list" where
  "uu_iccom_channel_verify channel area comment =
     (if (channel \<ge> word_of_int ICCOM_MIN_CHANNEL \<or> channel \<le> word_of_int ICCOM_MAX_CHANNEL)
          \<and> (area = ICCOM_CHANNEL_AREA_PRIME \<or> area = ICCOM_CHANNEL_AREA_ANY)
      then (0, [])
      else
        let range_size = ICCOM_MAX_CHANNEL - ICCOM_MIN_CHANNEL + 1 in
        if (channel \<ge> word_of_int (ICCOM_MIN_CHANNEL + range_size)
              \<or> channel \<le> word_of_int (ICCOM_MAX_CHANNEL + range_size))
            \<and> (area = ICCOM_CHANNEL_AREA_LOOPBACK \<or> area = ICCOM_CHANNEL_AREA_ANY)
        then (0, [])
        else
          case comment of
            None \<Rightarrow> (- EINVAL, [])
          | Some c \<Rightarrow>
              if length c \<noteq> 0
              then (- EINVAL, [Out_of_range channel (Some c) (uu_iccom_ch_area_name area)])
              else (- EINVAL, [Out_of_range channel None (uu_iccom_ch_area_name area)]))"

text \<open>
  The ranges the areas stand for, as the header's diagram draws them: the primary
  channels \<open>[ICCOM_MIN_CHANNEL, ICCOM_MAX_CHANNEL]\<close> and, right after them, the
  loopback channels, shifted by the size of the primary range.
\<close>

definition in_prime_area :: "u32 \<Rightarrow> bool" where
  "in_prime_area channel \<longleftrightarrow>
     ICCOM_MIN_CHANNEL \<le> uint channel \<and> uint channel \<le> ICCOM_MAX_CHANNEL"

definition in_loopback_area :: "u32 \<Rightarrow> bool" where
  "in_loopback_area channel \<longleftrightarrow>
     (let range_size = ICCOM_MAX_CHANNEL - ICCOM_MIN_CHANNEL + 1 in
      ICCOM_MIN_CHANNEL + range_size \<le> uint channel
      \<and> uint channel \<le> ICCOM_MAX_CHANNEL + range_size)"

section \<open>The netlink message layout\<close>

text \<open>
  Modelled from the spec: the macros \<^verbatim>\<open>NLMSG_ALIGNTO\<close>, \<^verbatim>\<open>NLMSG_ALIGN\<close>, \<^verbatim>\<open>NLMSG_HDRLEN\<close>,
  \<^verbatim>\<open>NLMSG_LENGTH\<close>, \<^verbatim>\<open>NLMSG_SPACE\<close>, \<^verbatim>\<open>NLMSG_PAYLOAD\<close> and \<^verbatim>\<open>struct nlmsghdr\<close> come from
  the system header \<^verbatim>\<open>linux/netlink.h\<close>, which \<^verbatim>\<open>iccom.h\<close> includes and the repository
  does not hold. The spec fixes them to the historical netlink values: a 4-byte
  alignment unit and a fixed-size header with an embedded 32-bit length field, the
  frame size being header size plus payload size rounded up to the alignment unit.
  The definitions below follow the header's text,
  \<^verbatim>\<open>NLMSG_ALIGN(len) = ((len) + NLMSG_ALIGNTO - 1) & ~(NLMSG_ALIGNTO - 1)\<close> with
  \<^verbatim>\<open>NLMSG_ALIGNTO = 4U\<close>, at the type the library uses them at: the argument is a
  \<^verbatim>\<open>size_t\<close>, the mask \<^verbatim>\<open>~(4U - 1)\<close> is computed in \<^verbatim>\<open>unsigned int\<close> and only then
  widened. \<^verbatim>\<open>struct nlmsghdr\<close> is 16 bytes: \<^verbatim>\<open>__u32 nlmsg_len\<close> first, then type,
  flags, sequence number and port id.
\<close>

definition NLMSG_ALIGNTO :: u32 where "NLMSG_ALIGNTO = 4"

definition NLMSG_ALIGN :: "size_t \<Rightarrow> size_t" where
  "NLMSG_ALIGN len = (len + ucast NLMSG_ALIGNTO - 1) AND ucast (NOT (NLMSG_ALIGNTO - 1))"

definition sizeof_nlmsghdr :: size_t where "sizeof_nlmsghdr = 16"

definition NLMSG_HDRLEN :: size_t where "NLMSG_HDRLEN = NLMSG_ALIGN sizeof_nlmsghdr"

definition NLMSG_LENGTH :: "size_t \<Rightarrow> size_t" where
  "NLMSG_LENGTH len = len + NLMSG_HDRLEN"

definition NLMSG_SPACE :: "size_t \<Rightarrow> size_t" where
  "NLMSG_SPACE len = NLMSG_ALIGN (NLMSG_LENGTH len)"

text \<open>
  \<^verbatim>\<open>NLMSG_PAYLOAD(nlh, len)\<close> is \<^verbatim>\<open>nlh->nlmsg_len - NLMSG_SPACE(len)\<close>: a subtraction in
  \<^verbatim>\<open>unsigned int\<close>, which wraps.
\<close>

definition NLMSG_PAYLOAD :: "u32 \<Rightarrow> size_t \<Rightarrow> u32" where
  "NLMSG_PAYLOAD nlmsg_len len = nlmsg_len - ucast (NLMSG_SPACE len)"

text \<open>
  The length field in memory, in the byte order of the platform (little endian):
  storing a \<^verbatim>\<open>__u32\<close> and loading it from the first four bytes of a buffer.
\<close>

definition store_u32 :: "u32 \<Rightarrow> byte list" where
  "store_u32 w = [ucast w, ucast (drop_bit 8 w), ucast (drop_bit 16 w), ucast (drop_bit 24 w)]"

fun load_u32 :: "byte list \<Rightarrow> u32" where
  "load_u32 (b0 # b1 # b2 # b3 # rest) =
     ucast b0 OR push_bit 8 (ucast b1) OR push_bit 16 (ucast b2) OR push_bit 24 (ucast b3)"
| "load_u32 bs = 0"

text \<open>
  \<^verbatim>\<open>memset(nl_msg, 0, sizeof(*nl_msg)); nl_msg->nlmsg_len = v\<close>: the sixteen header
  bytes afterwards.
\<close>

definition nlmsghdr_bytes :: "u32 \<Rightarrow> byte list" where
  "nlmsghdr_bytes v = store_u32 v @ replicate 12 0"

section \<open>Size and offset arithmetic of \<^verbatim>\<open>iccom.h\<close>\<close>

definition iccom_get_data_payload_offset :: size_t where
  "iccom_get_data_payload_offset = NLMSG_LENGTH 0"

definition iccom_get_required_buffer_size :: "size_t \<Rightarrow> size_t" where
  "iccom_get_required_buffer_size data_size_bytes = NLMSG_SPACE data_size_bytes"

definition iccom_get_max_payload_size :: size_t where
  "iccom_get_max_payload_size = ICCOM_SOCKET_MAX_MESSAGE_SIZE_BYTES"


section \<open>The transport: \<^verbatim>\<open>write\<close> and \<^verbatim>\<open>read\<close> on the socket\<close>

text \<open>
  The socket is outside the program. What one call of \<^verbatim>\<open>write\<close> or \<^verbatim>\<open>read\<close> does is a
  parameter of the model: \<^verbatim>\<open>write\<close> fails with an \<^verbatim>\<open>errno\<close> or accepts a number of
  bytes; \<^verbatim>\<open>read\<close> fails with an \<^verbatim>\<open>errno\<close> or delivers bytes (none at all when the peer
  closed the connection or a signal interrupted the call). A read never delivers
  more than the buffer size it was given.
\<close>

datatype write_outcome = Write_failed int | Written nat

datatype read_outcome = Read_failed int | Read_bytes "byte list"

section \<open>\<^verbatim>\<open>iccom_send_data_nocopy\<close>\<close>

text \<open>
  The buffer pointer is nullable. The caller's contract is that a non-null buffer
  holds at least \<^verbatim>\<open>buf_size_bytes\<close> bytes. The function writes the header into the
  first sixteen bytes of the caller's buffer and hands the first \<^verbatim>\<open>buf_size_bytes\<close>
  bytes to \<^verbatim>\<open>write\<close>. The result records the return value, the caller's buffer after
  the call, and what was handed to \<^verbatim>\<open>write\<close> (\<open>None\<close> when \<^verbatim>\<open>write\<close> was not called).
\<close>

record send_result =
  send_ret :: int
  send_buf :: "byte list option"
  send_wire :: "byte list option"

definition iccom_send_data_nocopy ::
  "int \<Rightarrow> byte list option \<Rightarrow> size_t \<Rightarrow> size_t \<Rightarrow> size_t \<Rightarrow> write_outcome \<Rightarrow> send_result" where
  "iccom_send_data_nocopy sock_fd buf buf_size_bytes data_offset data_size_bytes w =
     (if buf_size_bytes \<noteq> NLMSG_SPACE data_size_bytes
      then \<lparr>send_ret = - EINVAL, send_buf = buf, send_wire = None\<rparr>
      else if data_offset \<noteq> NLMSG_LENGTH 0
      then \<lparr>send_ret = - EINVAL, send_buf = buf, send_wire = None\<rparr>
      else if data_size_bytes > ICCOM_SOCKET_MAX_MESSAGE_SIZE_BYTES
      then \<lparr>send_ret = - E2BIG, send_buf = buf, send_wire = None\<rparr>
      else if data_size_bytes = 0
      then \<lparr>send_ret = - EINVAL, send_buf = buf, send_wire = None\<rparr>
      else
        case buf of
          None \<Rightarrow> \<lparr>send_ret = - EINVAL, send_buf = buf, send_wire = None\<rparr>
        | Some b \<Rightarrow>
            let b' = nlmsghdr_bytes (ucast data_size_bytes) @ drop (unat sizeof_nlmsghdr) b;
                handed = take (unat buf_size_bytes) b'
            in case w of
                 Write_failed err \<Rightarrow>
                   \<lparr>send_ret = - err, send_buf = Some b', send_wire = Some handed\<rparr>
               | Written res \<Rightarrow>
                   if res \<noteq> unat buf_size_bytes
                   then \<lparr>send_ret = - EPIPE, send_buf = Some b', send_wire = Some handed\<rparr>
                   else \<lparr>send_ret = 0, send_buf = Some b', send_wire = Some handed\<rparr>)"

section \<open>\<^verbatim>\<open>iccom_receive_data_nocopy\<close>\<close>

text \<open>
  The out-parameter \<^verbatim>\<open>data_offset__out\<close> is a nullable pointer to an \<^verbatim>\<open>int\<close>: \<open>None\<close>
  is the null pointer, \<open>Some v\<close> a variable holding \<open>v\<close>. The result records the
  return value, the receive buffer and that variable after the call. The value
  returned on the last line is the \<^verbatim>\<open>size_t\<close> payload size converted to \<^verbatim>\<open>int\<close>.
\<close>

record receive_result =
  recv_ret :: int
  recv_buf :: "byte list"
  recv_offset :: "int option"

definition iccom_receive_data_nocopy ::
  "int \<Rightarrow> byte list \<Rightarrow> size_t \<Rightarrow> int option \<Rightarrow> read_outcome \<Rightarrow> receive_result" where
  "iccom_receive_data_nocopy sock_fd receive_buffer buffer_size data_offset_out r =
     (if buffer_size \<le> NLMSG_SPACE 0
      then \<lparr>recv_ret = - ENFILE, recv_buf = receive_buffer, recv_offset = data_offset_out\<rparr>
      else
        case data_offset_out of
          None \<Rightarrow> \<lparr>recv_ret = - EINVAL, recv_buf = receive_buffer, recv_offset = None\<rparr>
        | Some off \<Rightarrow>
            (case r of
               Read_failed err \<Rightarrow>
                 if err = EAGAIN
                 then \<lparr>recv_ret = 0, recv_buf = receive_buffer, recv_offset = Some off\<rparr>
                 else \<lparr>recv_ret = - err, recv_buf = receive_buffer, recv_offset = Some off\<rparr>
             | Read_bytes bs \<Rightarrow>
                 let got = take (unat buffer_size) bs;
                     len = length got;
                     buf' = got @ drop len receive_buffer
                 in if len = 0
                    then \<lparr>recv_ret = 0, recv_buf = buf', recv_offset = Some off\<rparr>
                    else if of_nat len < sizeof_nlmsghdr
                    then \<lparr>recv_ret = - EBADE, recv_buf = buf', recv_offset = Some off\<rparr>
                    else
                      let data_size_bytes = (ucast (load_u32 buf') :: size_t);
                          nl_total_msg_size = NLMSG_SPACE data_size_bytes
                      in if of_nat len \<noteq> nl_total_msg_size
                         then \<lparr>recv_ret = - EBADE, recv_buf = buf', recv_offset = Some off\<rparr>
                         else \<lparr>recv_ret = sint (ucast data_size_bytes :: 32 word),
                               recv_buf = buf',
                               recv_offset = Some (uint (NLMSG_LENGTH 0))\<rparr>))"

section \<open>The class \<^verbatim>\<open>IccomSocket\<close>\<close>

text \<open>
  A \<^verbatim>\<open>std::vector<char>\<close> is a list of bytes. \<^verbatim>\<open>resize(n)\<close> cuts the vector to \<open>n\<close>
  elements or appends zero bytes up to \<open>n\<close>; \<^verbatim>\<open>push_back\<close> appends one element at the
  end.
\<close>

definition vec_resize :: "nat \<Rightarrow> byte list \<Rightarrow> byte list" where
  "vec_resize n v = (if n \<le> length v then take n v else v @ replicate (n - length v) 0)"

definition push_back :: "byte list \<Rightarrow> byte \<Rightarrow> byte list" where
  "push_back v ch = v @ [ch]"

record IccomSocket =
  m_sock_fd :: int
  m_channel :: u32
  m_incoming_data :: "byte list"
  m_outgoing_data :: "byte list"
  m_outgoing_payload_size :: size_t
  m_dbg :: bool

text \<open>
  The constructor throws \<^verbatim>\<open>std::out_of_range\<close> for a channel that
  \<^verbatim>\<open>iccom_channel_verify\<close> rejects (\<open>None\<close>); the channel reaches that function
  converted to \<^verbatim>\<open>int\<close>.
\<close>

definition IccomSocket_ctor :: "u32 \<Rightarrow> IccomSocket option" where
  "IccomSocket_ctor channel =
     (if iccom_channel_verify (sint channel) < 0 then None
      else Some \<lparr>m_sock_fd = - 1, m_channel = channel,
                 m_incoming_data = vec_resize 0 [],
                 m_outgoing_data = vec_resize (unat (NLMSG_SPACE 0)) [],
                 m_outgoing_payload_size = 0, m_dbg = False\<rparr>)"

definition reset_output :: "IccomSocket \<Rightarrow> IccomSocket" where
  "reset_output s =
     s\<lparr>m_outgoing_data := vec_resize (unat (NLMSG_SPACE 0)) (m_outgoing_data s),
       m_outgoing_payload_size := 0\<rparr>"

definition reset_input :: "IccomSocket \<Rightarrow> IccomSocket" where
  "reset_input s = s\<lparr>m_incoming_data := vec_resize 0 (m_incoming_data s)\<rparr>"

definition output_size :: "IccomSocket \<Rightarrow> size_t" where
  "output_size s = m_outgoing_payload_size s"

definition output_free_space :: "IccomSocket \<Rightarrow> size_t" where
  "output_free_space s =
     (let max_s = iccom_get_max_payload_size; curr_s = m_outgoing_payload_size s
      in if max_s \<ge> curr_s then max_s - curr_s else 0)"

text \<open>\<^verbatim>\<open>operator<<(const char)\<close> and \<^verbatim>\<open>operator<<(const std::vector<char> &)\<close>.\<close>

definition shl_char :: "IccomSocket \<Rightarrow> byte \<Rightarrow> IccomSocket" where
  "shl_char s ch =
     (if m_outgoing_payload_size s \<ge> iccom_get_max_payload_size then s
      else
        let pushed = push_back (m_outgoing_data s) ch;
            n = m_outgoing_payload_size s + 1
        in s\<lparr>m_outgoing_data := vec_resize (unat (NLMSG_SPACE n)) pushed,
             m_outgoing_payload_size := n\<rparr>)"

definition shl_vector :: "IccomSocket \<Rightarrow> byte list \<Rightarrow> IccomSocket" where
  "shl_vector s data =
     (if m_outgoing_payload_size s + of_nat (length data) \<ge> iccom_get_max_payload_size then s
      else
        let pushed = foldl push_back (m_outgoing_data s) data;
            n = m_outgoing_payload_size s + of_nat (length data)
        in s\<lparr>m_outgoing_data := vec_resize (unat (NLMSG_SPACE n)) pushed,
             m_outgoing_payload_size := n\<rparr>)"

text \<open>
  \<^verbatim>\<open>input_size()\<close> reads the length field of the stored frame through
  \<^verbatim>\<open>NLMSG_PAYLOAD(nlmsghdr, 0)\<close>.
\<close>

definition input_size :: "IccomSocket \<Rightarrow> size_t" where
  "input_size s =
     (if of_nat (length (m_incoming_data s)) \<ge> NLMSG_SPACE 0
      then ucast (NLMSG_PAYLOAD (load_u32 (m_incoming_data s)) 0)
      else 0)"

text \<open>
  \<^verbatim>\<open>operator[]\<close>: the assertion \<^verbatim>\<open>idx < input_size()\<close> guards the access, and an index
  past the end of the vector is undefined behaviour; both give \<open>None\<close>.
\<close>

definition subscript :: "IccomSocket \<Rightarrow> size_t \<Rightarrow> byte option" where
  "subscript s idx =
     (if \<not> idx < input_size s then None
      else if \<not> unat (idx + NLMSG_LENGTH 0) < length (m_incoming_data s) then None
      else Some (m_incoming_data s ! unat (idx + NLMSG_LENGTH 0)))"

text \<open>
  \<^verbatim>\<open>IccomSocket::send\<close>. The result is the return value, the object afterwards and
  what was handed to \<^verbatim>\<open>write\<close>. The header is written in place into
  \<^verbatim>\<open>m_outgoing_data\<close>, whose \<^verbatim>\<open>data()\<close> is never null. Debug printing goes to the
  standard output only and is left out.
\<close>

definition IccomSocket_send ::
  "IccomSocket \<Rightarrow> bool \<Rightarrow> write_outcome \<Rightarrow> int \<times> IccomSocket \<times> byte list option" where
  "IccomSocket_send s reset_message_on_success w =
     (if m_outgoing_payload_size s = 0 then (0, s, None)
      else
        let r = iccom_send_data_nocopy (m_sock_fd s) (Some (m_outgoing_data s))
                  (of_nat (length (m_outgoing_data s))) (NLMSG_LENGTH 0)
                  (m_outgoing_payload_size s) w;
            s1 = (case send_buf r of
                    None \<Rightarrow> s
                  | Some b \<Rightarrow> s\<lparr>m_outgoing_data := b\<rparr>);
            res = send_ret r
        in if res < 0 then (res, s1, send_wire r)
           else if reset_message_on_success then (res, reset_output s1, send_wire r)
           else (res, s1, send_wire r))"

text \<open>
  \<^verbatim>\<open>IccomSocket::receive\<close>. The result is the return value and the object
  afterwards. \<^verbatim>\<open>NLMSG_LENGTH(res)\<close> is computed on the \<^verbatim>\<open>int\<close> \<open>res > 0\<close>.
\<close>

definition IccomSocket_receive :: "IccomSocket \<Rightarrow> read_outcome \<Rightarrow> int \<times> IccomSocket" where
  "IccomSocket_receive s r =
     (let s1 = s\<lparr>m_incoming_data :=
                  vec_resize (unat (NLMSG_SPACE iccom_get_max_payload_size)) (m_incoming_data s)\<rparr>;
          data_offset = 0;
          rr = iccom_receive_data_nocopy (m_sock_fd s1) (m_incoming_data s1)
                 (of_nat (length (m_incoming_data s1))) (Some data_offset) r;
          s2 = s1\<lparr>m_incoming_data := recv_buf rr\<rparr>;
          res = recv_ret rr
      in if res \<le> 0 then (res, reset_input s2)
         else if recv_offset rr \<noteq> Some (uint (NLMSG_LENGTH 0)) then (- EFAULT, reset_input s2)
         else (res, s2\<lparr>m_incoming_data :=
                         vec_resize (nat (res + uint NLMSG_HDRLEN)) (m_incoming_data s2)\<rparr>))"

text \<open>
  \<^verbatim>\<open>IccomSocket::open\<close>. What \<^verbatim>\<open>iccom_open_socket\<close> returns (a descriptor, or a negated
  error code) is the transport's answer and a parameter here.
\<close>

definition IccomSocket_open :: "IccomSocket \<Rightarrow> int \<Rightarrow> int \<times> IccomSocket" where
  "IccomSocket_open s opened =
     (if m_sock_fd s \<ge> 0 then (m_sock_fd s, s)
      else (opened, s\<lparr>m_sock_fd := opened\<rparr>))"

text \<open>
  The running example: the object after \<^verbatim>\<open>IccomSocket sk{100}\<close> and an \<^verbatim>\<open>sk.open()\<close>
  that obtained descriptor 3.
\<close>

definition sk100 :: IccomSocket where
  "sk100 = \<lparr>m_sock_fd = 3, m_channel = 100, m_incoming_data = [],
             m_outgoing_data = replicate 16 0, m_outgoing_payload_size = 0, m_dbg = False\<rparr>"

section \<open>Results about channel validation\<close>

lemma word_range_cover: "(32768::u32) \<le> c \<or> c \<le> 65535"
proof (cases "32768 \<le> c")
  case True
  then show ?thesis by simp
next
  case False
  then have "c < 32768" by simp
  then have "c \<le> 65535" by (simp add: word_less_def word_le_def)
  then show ?thesis by simp
qed

text \<open>
  Whatever the channel, each of the three areas is accepted: the two guards are
  tautologies, so only an unknown area id reaches the error return.
\<close>

lemma channel_verify_area_always_zero:
  "area = ICCOM_CHANNEL_AREA_PRIME \<or> area = ICCOM_CHANNEL_AREA_LOOPBACK
     \<or> area = ICCOM_CHANNEL_AREA_ANY \<Longrightarrow>
   fst (uu_iccom_channel_verify channel area comment) = 0"
  using word_range_cover [of channel]
  by (auto simp: uu_iccom_channel_verify_def ICCOM_MIN_CHANNEL_def ICCOM_MAX_CHANNEL_def
      ICCOM_CHANNEL_AREA_PRIME_def ICCOM_CHANNEL_AREA_LOOPBACK_def ICCOM_CHANNEL_AREA_ANY_def
      Let_def)

text \<open>
  C1. The claim: verification against an area succeeds exactly for the channels of
  that area, so a primary channel is rejected for the loopback area. The code joins
  the two bounds of each range with \<^verbatim>\<open>||\<close>, which every channel satisfies: channel 100
  lies in the primary area, not in the loopback area, and is accepted for the
  loopback area all the same.
\<close>

theorem channel_verify_accepts_prime_as_loopback:
  "in_prime_area 100 \<and> \<not> in_loopback_area 100
   \<and> fst (uu_iccom_channel_verify 100 ICCOM_CHANNEL_AREA_LOOPBACK None) = 0"
  by (simp add: in_prime_area_def in_loopback_area_def uu_iccom_channel_verify_def
      ICCOM_MIN_CHANNEL_def ICCOM_MAX_CHANNEL_def
      ICCOM_CHANNEL_AREA_PRIME_def ICCOM_CHANNEL_AREA_LOOPBACK_def ICCOM_CHANNEL_AREA_ANY_def)

section \<open>Results about sizes and offsets\<close>

lemma NLMSG_ALIGN_alt: "NLMSG_ALIGN len = (len + 3) AND 0xFFFFFFFC"
proof -
  have "len + ucast NLMSG_ALIGNTO - 1 = len + 3" by (simp add: NLMSG_ALIGNTO_def)
  moreover have "(ucast (NOT (NLMSG_ALIGNTO - 1)) :: size_t) = 0xFFFFFFFC"
    by (simp add: NLMSG_ALIGNTO_def)
  ultimately show ?thesis by (simp only: NLMSG_ALIGN_def)
qed

lemma NLMSG_HDRLEN_eq: "NLMSG_HDRLEN = 16"
  by (simp add: NLMSG_HDRLEN_def NLMSG_ALIGN_def NLMSG_ALIGNTO_def sizeof_nlmsghdr_def)

lemma NLMSG_LENGTH_0: "NLMSG_LENGTH 0 = 16"
  by (simp add: NLMSG_LENGTH_def NLMSG_HDRLEN_eq)

lemma NLMSG_SPACE_alt: "NLMSG_SPACE len = (len + 19) AND 0xFFFFFFFC"
proof -
  have "len + 16 + 3 = len + 19" by simp
  then show ?thesis
    by (simp only: NLMSG_SPACE_def NLMSG_LENGTH_def NLMSG_HDRLEN_eq NLMSG_ALIGN_alt)
qed

lemma NLMSG_SPACE_0: "NLMSG_SPACE 0 = 16"
  by (simp add: NLMSG_SPACE_alt)

lemma nat_and_align_mask: "(n::nat) AND 0xFFFFFFFC = 4 * ((n div 4) mod 2 ^ 30)"
proof -
  have m: "(0xFFFFFFFC :: nat) = push_bit 2 (mask 30)"
    by (simp add: mask_eq_exp_minus_1 push_bit_eq_mult)
  have s: "2 \<le> k \<Longrightarrow> Suc (Suc (k - 2)) = k" for k by simp
  have "n AND push_bit 2 (mask 30) = push_bit 2 (take_bit 30 (drop_bit 2 n))"
    by (rule bit_eqI) (auto simp add: bit_simps s)
  then show ?thesis
    by (simp add: m push_bit_eq_mult take_bit_eq_mod drop_bit_eq_div)
qed

lemma unat_NLMSG_SPACE:
  "unat (NLMSG_SPACE len) = 4 * ((((unat len + 19) mod 2 ^ 64) div 4) mod 2 ^ 30)"
proof -
  have "unat (len + 19) = (unat len + 19) mod 2 ^ 64"
    using unat_word_ariths(1) [of len 19] by simp
  moreover have "unat ((len + 19) AND 0xFFFFFFFC) = unat (len + 19) AND 0xFFFFFFFC"
    by (simp add: unsigned_and_eq)
  ultimately show ?thesis
    by (simp only: NLMSG_SPACE_alt nat_and_align_mask)
qed

lemma NLMSG_SPACE_dvd: "4 dvd unat (NLMSG_SPACE len)"
  by (simp only: unat_NLMSG_SPACE dvd_triv_left)

lemma unat_NLMSG_SPACE_small:
  assumes "unat len + 19 < 2 ^ 32"
  shows "unat (NLMSG_SPACE len) = 4 * ((unat len + 19) div 4)"
proof -
  from assms have a: "(unat len + 19) mod 2 ^ 64 = unat len + 19" by simp
  from assms have "(unat len + 19) div 4 < 2 ^ 30" by simp
  then have b: "((unat len + 19) div 4) mod 2 ^ 30 = (unat len + 19) div 4" by simp
  show ?thesis by (simp only: unat_NLMSG_SPACE a b)
qed

lemma NLMSG_SPACE_bounds:
  assumes "unat len + 19 < 2 ^ 32"
  shows "unat len + 16 \<le> unat (NLMSG_SPACE len)" and "unat (NLMSG_SPACE len) < unat len + 20"
  using unat_NLMSG_SPACE_small [OF assms] by presburger+

text \<open>
  C9. The claim: for every payload size \<open>p\<close> the frame size is a multiple of the
  4-byte alignment unit and at least the payload offset plus \<open>p\<close>. The second half
  fails where the \<^verbatim>\<open>size_t\<close> arithmetic leaves its range: for \<open>p = 2\<^sup>6\<^sup>4 - 17\<close> the sum
  \<open>p + 19\<close> wraps to 2 and the frame size is 0.
\<close>

theorem required_buffer_size_wraps:
  "iccom_get_required_buffer_size 0xFFFFFFFFFFFFFFEF = 0
   \<and> unat (iccom_get_required_buffer_size 0xFFFFFFFFFFFFFFEF)
       < unat iccom_get_data_payload_offset + unat (0xFFFFFFFFFFFFFFEF :: size_t)"
  by (simp add: iccom_get_required_buffer_size_def iccom_get_data_payload_offset_def
      NLMSG_SPACE_alt NLMSG_LENGTH_0)

text \<open>
  C9 as amended. The frame size is a multiple of 4 for every payload size \<open>p\<close>, and
  it is at least the payload offset plus \<open>p\<close> whenever \<open>p + 19 < 2\<^sup>3\<^sup>2\<close>, which covers
  every payload up to the maximum of 4096 bytes, and beyond which the 32-bit mask of
  \<^verbatim>\<open>NLMSG_ALIGN\<close> cuts the sum.
\<close>

theorem required_buffer_size_aligned_and_large_enough:
  "4 dvd unat (iccom_get_required_buffer_size p)
   \<and> (unat p + 19 < 2 ^ 32 \<longrightarrow>
        unat iccom_get_data_payload_offset + unat p \<le> unat (iccom_get_required_buffer_size p))"
proof (intro conjI impI)
  show "4 dvd unat (iccom_get_required_buffer_size p)"
    by (simp only: iccom_get_required_buffer_size_def NLMSG_SPACE_dvd)
next
  assume small: "unat p + 19 < 2 ^ 32"
  have "unat iccom_get_data_payload_offset = 16"
    by (simp add: iccom_get_data_payload_offset_def NLMSG_LENGTH_0)
  with NLMSG_SPACE_bounds(1) [OF small]
  show "unat iccom_get_data_payload_offset + unat p \<le> unat (iccom_get_required_buffer_size p)"
    by (simp add: iccom_get_required_buffer_size_def)
qed

theorem required_buffer_size_witness:
  "4 dvd unat (iccom_get_required_buffer_size 4096)
   \<and> unat (4096 :: size_t) + 19 < 2 ^ 32
   \<and> unat iccom_get_data_payload_offset + unat (4096 :: size_t) \<le> unat (iccom_get_required_buffer_size 4096)"
  using required_buffer_size_aligned_and_large_enough [of 4096] by simp

section \<open>Results about the socket object\<close>

lemma length_vec_resize: "length (vec_resize n v) = n"
  by (simp add: vec_resize_def)

lemma vec_resize_0: "vec_resize 0 v = []"
  by (simp add: vec_resize_def)

lemma NLMSG_SPACE_max: "NLMSG_SPACE iccom_get_max_payload_size = 4112"
  by (simp add: NLMSG_SPACE_alt iccom_get_max_payload_size_def ICCOM_SOCKET_MAX_MESSAGE_SIZE_BYTES_def)

lemma input_size_reset_input: "input_size (reset_input s) = 0"
  by (simp add: input_size_def reset_input_def vec_resize_0 NLMSG_SPACE_0)

lemma receive_buffer_size:
  "(of_nat (length (vec_resize (unat (NLMSG_SPACE iccom_get_max_payload_size)) v)) :: size_t) = 4112"
  by (simp add: length_vec_resize NLMSG_SPACE_max)

lemma incoming_reset_input: "m_incoming_data (reset_input s) = []"
  by (simp add: reset_input_def vec_resize_0)

text \<open>
  The object the constructor builds for channel 100, used as the concrete socket of
  the examples below.
\<close>

lemma ctor_100:
  "IccomSocket_ctor 100 = Some \<lparr>m_sock_fd = - 1, m_channel = 100, m_incoming_data = [],
     m_outgoing_data = replicate 16 0, m_outgoing_payload_size = 0, m_dbg = False\<rparr>"
  by (simp add: IccomSocket_ctor_def iccom_channel_verify_def ICCOM_MIN_CHANNEL_def
      ICCOM_MAX_CHANNEL_def EINVAL_def vec_resize_def NLMSG_SPACE_0)

lemma sk100_reachable:
  "map_option (\<lambda>c. IccomSocket_open c 3) (IccomSocket_ctor 100) = Some (3, sk100)"
  by (simp add: ctor_100 IccomSocket_open_def sk100_def)

text \<open>
  C6. When the read times out (\<^verbatim>\<open>read\<close> fails with \<^verbatim>\<open>EAGAIN\<close>) or the peer has closed
  the connection (\<^verbatim>\<open>read\<close> delivers no byte), \<^verbatim>\<open>IccomSocket::receive\<close> returns 0, the
  incoming buffer is empty afterwards and \<^verbatim>\<open>input_size()\<close> is 0, whatever the object
  held before.
\<close>

theorem receive_timeout_or_close_returns_zero:
  "fst (IccomSocket_receive s (Read_failed EAGAIN)) = 0
   \<and> input_size (snd (IccomSocket_receive s (Read_failed EAGAIN))) = 0
   \<and> m_incoming_data (snd (IccomSocket_receive s (Read_failed EAGAIN))) = []
   \<and> fst (IccomSocket_receive s (Read_bytes [])) = 0
   \<and> input_size (snd (IccomSocket_receive s (Read_bytes []))) = 0
   \<and> m_incoming_data (snd (IccomSocket_receive s (Read_bytes []))) = []"
  by (simp add: IccomSocket_receive_def iccom_receive_data_nocopy_def Let_def
      receive_buffer_size NLMSG_SPACE_0 input_size_reset_input incoming_reset_input)

text \<open>
  C7. For a socket whose outgoing payload size is 0, \<^verbatim>\<open>send\<close> returns 0, hands
  nothing to \<^verbatim>\<open>write\<close> and leaves the whole object, both buffers included, as it
  was, whatever the reset flag and whatever the transport would have done.
\<close>

theorem send_empty_is_noop:
  "output_size s = 0 \<Longrightarrow> IccomSocket_send s reset_message_on_success w = (0, s, None)"
  by (simp add: IccomSocket_send_def output_size_def)

theorem send_empty_witness:
  "output_size \<lparr>m_sock_fd = - 1, m_channel = 100, m_incoming_data = [],
     m_outgoing_data = replicate 16 0, m_outgoing_payload_size = 0, m_dbg = False\<rparr> = 0
   \<and> IccomSocket_send \<lparr>m_sock_fd = - 1, m_channel = 100, m_incoming_data = [],
     m_outgoing_data = replicate 16 0, m_outgoing_payload_size = 0, m_dbg = False\<rparr>
       True (Written 0)
     = (0, \<lparr>m_sock_fd = - 1, m_channel = 100, m_incoming_data = [],
     m_outgoing_data = replicate 16 0, m_outgoing_payload_size = 0, m_dbg = False\<rparr>, None)"
  using send_empty_is_noop [of "\<lparr>m_sock_fd = - 1, m_channel = 100, m_incoming_data = [],
     m_outgoing_data = replicate 16 0, m_outgoing_payload_size = 0, m_dbg = False\<rparr>" True "Written 0"]
  by (simp add: output_size_def)

section \<open>Results about the frame codec\<close>

lemma unat_of_nat_size: "n < 2 ^ 64 \<Longrightarrow> unat (of_nat n :: size_t) = n"
  by (simp add: unat_of_nat)

lemma ucast_len_field:
  assumes "n < 2 ^ 32"
  shows "(ucast (of_nat n :: size_t) :: u32) = of_nat n"
    and "(ucast (of_nat n :: u32) :: size_t) = of_nat n"
proof -
  show "(ucast (of_nat n :: size_t) :: u32) = of_nat n"
    by (rule word_unat_eq_iff [THEN iffD2]) (simp add: unsigned_ucast_eq unat_of_nat take_bit_eq_mod mod_mod_cancel)
  show "(ucast (of_nat n :: u32) :: size_t) = of_nat n"
    using assms
    by (intro word_unat_eq_iff [THEN iffD2]) (simp add: unsigned_ucast_eq unat_of_nat take_bit_eq_mod)
qed

lemma sint_len_field:
  assumes "n < 2 ^ 31"
  shows "sint (of_nat n :: 32 word) = int n"
proof -
  have "sint (of_nat n :: 32 word) = signed_take_bit 31 (int n)"
    by (simp add: signed_of_nat)
  moreover have "signed_take_bit 31 (int n) = int n"
  proof (rule signed_take_bit_int_eq_self)
    show "- (2 ^ 31) \<le> int n" by simp
    from assms have "int n < int (2 ^ 31)" by (simp only: of_nat_less_iff)
    then show "int n < 2 ^ 31" by simp
  qed
  ultimately show ?thesis by simp
qed

lemma load_store_u32: "load_u32 (store_u32 w @ rest) = w"
proof -
  have "ucast (ucast w :: byte) OR push_bit 8 (ucast (ucast (drop_bit 8 w) :: byte))
         OR push_bit 16 (ucast (ucast (drop_bit 16 w) :: byte))
         OR push_bit 24 (ucast (ucast (drop_bit 24 w) :: byte)) = w"
  proof (rule bit_word_eqI)
    fix n assume "n < LENGTH(32)"
    then consider "n < 8" | "8 \<le> n" "n < 16" | "16 \<le> n" "n < 24" | "24 \<le> n" "n < 32"
      by fastforce
    then show "bit (ucast (ucast w :: byte) OR push_bit 8 (ucast (ucast (drop_bit 8 w) :: byte))
         OR push_bit 16 (ucast (ucast (drop_bit 16 w) :: byte))
         OR push_bit 24 (ucast (ucast (drop_bit 24 w) :: byte)) :: u32) n = bit w n"
      by cases (auto simp add: bit_simps)
  qed
  then show ?thesis by (simp add: store_u32_def)
qed

lemma length_nlmsghdr_bytes: "length (nlmsghdr_bytes v) = 16"
  by (simp add: nlmsghdr_bytes_def store_u32_def)

lemma nlmsghdr_bytes_nonempty: "nlmsghdr_bytes v \<noteq> []"
  by (simp add: nlmsghdr_bytes_def store_u32_def)

lemma load_nlmsghdr_bytes: "load_u32 (nlmsghdr_bytes v @ rest) = v"
  by (simp add: nlmsghdr_bytes_def load_store_u32)

lemma load_u32_append: "4 \<le> length bs \<Longrightarrow> load_u32 (bs @ rest) = load_u32 bs"
proof -
  assume "4 \<le> length bs"
  then obtain b0 b1 b2 b3 tl where "bs = b0 # b1 # b2 # b3 # tl"
    by (cases bs; cases "tl bs"; cases "tl (tl bs)"; cases "tl (tl (tl bs))") auto
  then show ?thesis by simp
qed

lemma receive_nocopy_accepts:
  assumes room: "NLMSG_SPACE 0 < buffer_size"
    and fits: "length frame \<le> unat buffer_size"
    and hdr: "16 \<le> length frame"
    and match: "NLMSG_SPACE (ucast (load_u32 frame)) = of_nat (length frame)"
  shows "iccom_receive_data_nocopy fd rbuf buffer_size (Some off) (Read_bytes frame)
         = \<lparr>recv_ret = sint (ucast (ucast (load_u32 frame) :: size_t) :: 32 word),
            recv_buf = frame @ drop (length frame) rbuf,
            recv_offset = Some 16\<rparr>"
proof -
  have got: "take (unat buffer_size) frame = frame" using fits by simp
  have len: "unat (of_nat (length frame) :: size_t) = length frame"
    using fits by (rule le_unat_uoi)
  have "\<not> (of_nat (length frame) :: size_t) < 16"
    using hdr by (simp add: word_less_nat_alt len)
  moreover have "load_u32 (frame @ drop (length frame) rbuf) = load_u32 frame"
    using hdr by (simp add: load_u32_append)
  moreover have "frame \<noteq> []" using hdr by auto
  moreover have "\<not> buffer_size \<le> NLMSG_SPACE 0" using room by simp
  ultimately show ?thesis
    using match
    by (simp add: iccom_receive_data_nocopy_def Let_def got sizeof_nlmsghdr_def NLMSG_LENGTH_0)
qed


lemma IccomSocket_receive_alt:
  "IccomSocket_receive s r =
     (let rr = iccom_receive_data_nocopy (m_sock_fd s) (vec_resize 4112 (m_incoming_data s))
                 4112 (Some 0) r
      in if recv_ret rr \<le> 0 then (recv_ret rr, reset_input (s\<lparr>m_incoming_data := recv_buf rr\<rparr>))
         else if recv_offset rr \<noteq> Some 16
         then (- EFAULT, reset_input (s\<lparr>m_incoming_data := recv_buf rr\<rparr>))
         else (recv_ret rr,
               s\<lparr>m_incoming_data := vec_resize (nat (recv_ret rr + 16)) (recv_buf rr)\<rparr>))"
  by (simp add: IccomSocket_receive_def Let_def length_vec_resize NLMSG_SPACE_max
      NLMSG_LENGTH_0 NLMSG_HDRLEN_eq)

lemma echo_frame_accepted:
  "iccom_receive_data_nocopy fd rbuf 4112 (Some off)
     (Read_bytes (nlmsghdr_bytes 5 @ [0, 1, 2, 3, 4] @ [0, 0, 0]))
   = \<lparr>recv_ret = 5,
      recv_buf = (nlmsghdr_bytes 5 @ [0, 1, 2, 3, 4] @ [0, 0, 0]) @ drop 24 rbuf,
      recv_offset = Some 16\<rparr>"
  using receive_nocopy_accepts [of 4112 "nlmsghdr_bytes 5 @ [0, 1, 2, 3, 4] @ [0, 0, 0]" fd rbuf off]
  by (simp add: NLMSG_SPACE_0 length_nlmsghdr_bytes load_nlmsghdr_bytes NLMSG_SPACE_alt)



lemma load_u32_take: "4 \<le> k \<Longrightarrow> load_u32 (take k bs) = load_u32 bs"
proof (cases "4 \<le> length bs")
  case True
  assume k: "4 \<le> k"
  from True obtain b0 b1 b2 b3 tl where bs: "bs = b0 # b1 # b2 # b3 # tl"
    by (cases bs; cases "tl bs"; cases "tl (tl bs)"; cases "tl (tl (tl bs))") auto
  from k have "take k (b0 # b1 # b2 # b3 # tl) = b0 # b1 # b2 # b3 # take (k - 4) tl"
    by (simp add: take_Cons' eval_nat_numeral)
  with bs show ?thesis by simp
next
  case False
  assume "4 \<le> k"
  with False have "take k bs = bs" by simp
  then show ?thesis by simp
qed

lemma load_u32_vec_resize:
  "4 \<le> k \<Longrightarrow> 4 \<le> length bs \<Longrightarrow> load_u32 (vec_resize k bs) = load_u32 bs"
  by (simp add: vec_resize_def load_u32_take load_u32_append)

text \<open>
  A positive return value of the receive function is the length field of the frame it
  stored, read as an \<^verbatim>\<open>int\<close>, and comes with the data offset set.
\<close>

lemma receive_nocopy_positive:
  assumes "0 < recv_ret (iccom_receive_data_nocopy fd rbuf bsz (Some off) (Read_bytes bs))"
  shows "16 \<le> length (recv_buf (iccom_receive_data_nocopy fd rbuf bsz (Some off) (Read_bytes bs)))
    \<and> recv_ret (iccom_receive_data_nocopy fd rbuf bsz (Some off) (Read_bytes bs))
        = sint (load_u32 (recv_buf (iccom_receive_data_nocopy fd rbuf bsz (Some off) (Read_bytes bs))))
    \<and> recv_offset (iccom_receive_data_nocopy fd rbuf bsz (Some off) (Read_bytes bs)) = Some 16"
proof -
  define got where "got = take (unat bsz) bs"
  define buf where "buf = got @ drop (length got) rbuf"
  define d where "d = load_u32 buf"
  have unfolded: "iccom_receive_data_nocopy fd rbuf bsz (Some off) (Read_bytes bs) =
     (if bsz \<le> NLMSG_SPACE 0
      then \<lparr>recv_ret = - ENFILE, recv_buf = rbuf, recv_offset = Some off\<rparr>
      else if length got = 0
      then \<lparr>recv_ret = 0, recv_buf = buf, recv_offset = Some off\<rparr>
      else if of_nat (length got) < sizeof_nlmsghdr
      then \<lparr>recv_ret = - EBADE, recv_buf = buf, recv_offset = Some off\<rparr>
      else if of_nat (length got) \<noteq> NLMSG_SPACE (ucast d)
      then \<lparr>recv_ret = - EBADE, recv_buf = buf, recv_offset = Some off\<rparr>
      else \<lparr>recv_ret = sint (ucast (ucast d :: size_t) :: 32 word), recv_buf = buf,
            recv_offset = Some (uint (NLMSG_LENGTH 0))\<rparr>)"
    by (simp only: iccom_receive_data_nocopy_def Let_def got_def buf_def d_def
        option.case read_outcome.case)
  have neg: "\<not> 0 < - ENFILE" "\<not> 0 < - EBADE" by (simp_all add: ENFILE_def EBADE_def)
  from assms neg have acc: "\<not> (of_nat (length got) :: size_t) < sizeof_nlmsghdr"
    and res: "iccom_receive_data_nocopy fd rbuf bsz (Some off) (Read_bytes bs)
       = \<lparr>recv_ret = sint (ucast (ucast d :: size_t) :: 32 word), recv_buf = buf,
            recv_offset = Some (uint (NLMSG_LENGTH 0))\<rparr>"
    unfolding unfolded by (auto split: if_splits)
  have "length got \<le> unat bsz" by (simp add: got_def)
  then have "unat (of_nat (length got) :: size_t) = length got" by (rule le_unat_uoi)
  with acc have h: "16 \<le> length got"
    by (simp add: word_less_nat_alt sizeof_nlmsghdr_def)
  have narrow: "(ucast (ucast w :: size_t) :: 32 word) = w" for w :: u32
    by (rule bit_word_eqI) (simp add: bit_simps)
  have "16 \<le> length buf" using h by (simp add: buf_def)
  moreover have "sint (ucast (ucast d :: size_t) :: 32 word) = sint (load_u32 buf)"
    by (simp only: narrow d_def)
  ultimately show ?thesis
    unfolding res by (simp add: NLMSG_LENGTH_0)
qed

text \<open>
  So for every successful \<^verbatim>\<open>IccomSocket::receive\<close>, whatever the frame,
  \<^verbatim>\<open>input_size()\<close> is the returned length minus 16 in 32-bit arithmetic.
\<close>

lemma receive_positive_input_size:
  assumes rcv: "IccomSocket_receive s (Read_bytes bs) = (n, s')" and pos: "0 < n"
  shows "input_size s' = ucast (word_of_int n - 16 :: u32)"
proof -
  let ?rr = "iccom_receive_data_nocopy (m_sock_fd s) (vec_resize 4112 (m_incoming_data s))
               4112 (Some 0) (Read_bytes bs)"
  have efault: "\<not> 0 < - EFAULT" by (simp add: EFAULT_def)
  from rcv pos efault have n: "n = recv_ret ?rr"
    by (auto simp add: IccomSocket_receive_alt Let_def split: if_splits)
  with pos have p: "0 < recv_ret ?rr" by simp
  note facts = receive_nocopy_positive [OF p]
  from rcv pos n facts have s': "s' = s\<lparr>m_incoming_data := vec_resize (nat (n + 16)) (recv_buf ?rr)\<rparr>"
    by (auto simp add: IccomSocket_receive_alt Let_def split: if_splits)
  from facts have len: "4 \<le> length (recv_buf ?rr)" by simp
  from pos have k: "4 \<le> nat (n + 16)" by simp
  have ld: "load_u32 (vec_resize (nat (n + 16)) (recv_buf ?rr)) = load_u32 (recv_buf ?rr)"
    using k len by (rule load_u32_vec_resize)
  from facts n have d: "(word_of_int n :: u32) = load_u32 (recv_buf ?rr)" by simp
  have "sint (load_u32 (recv_buf ?rr)) < 2 ^ 31" using sint_lt [of "load_u32 (recv_buf ?rr)"] by simp
  with facts n have "n < 2 ^ 31" by simp
  with pos have "nat (n + 16) < 2 ^ 64" by simp
  then have "unat (of_nat (nat (n + 16)) :: size_t) = nat (n + 16)" by (rule unat_of_nat_size)
  with pos have big: "(16 :: size_t) \<le> of_nat (nat (n + 16))"
    by (simp add: word_le_nat_alt)
  show ?thesis
    using big
    by (simp add: s' input_size_def length_vec_resize NLMSG_SPACE_0 ld d NLMSG_PAYLOAD_def)
qed

text \<open>
  C10. The claim: \<^verbatim>\<open>iccom_receive_data_nocopy\<close> writes through \<^verbatim>\<open>data_offset__out\<close>
  only when it returns a positive payload length. A frame that is a bare header
  declaring a payload of 0 bytes passes the length check (16 bytes read, 16 bytes
  implied): the function returns 0 and has set the caller's variable, here from 0
  to 16.
\<close>

theorem receive_empty_frame_sets_offset:
  "recv_ret (iccom_receive_data_nocopy fd rbuf 4112 (Some 0) (Read_bytes (nlmsghdr_bytes 0))) = 0
   \<and> recv_offset (iccom_receive_data_nocopy fd rbuf 4112 (Some 0) (Read_bytes (nlmsghdr_bytes 0)))
       = Some 16"
  by (simp add: iccom_receive_data_nocopy_def Let_def NLMSG_SPACE_0 NLMSG_LENGTH_0
      length_nlmsghdr_bytes sizeof_nlmsghdr_def load_nlmsghdr_bytes nlmsghdr_bytes_nonempty)

text \<open>
  C4. The claim: after a \<^verbatim>\<open>receive()\<close> that returns \<open>n > 0\<close>, \<^verbatim>\<open>input_size()\<close> is \<open>n\<close>
  and \<^verbatim>\<open>operator[]\<close> yields the payload bytes. The echo scenario: the frame that
  \<^verbatim>\<open>iccom_send_data_nocopy\<close> builds for the payload 0, 1, 2, 3, 4 carries 5 in its
  length field. \<^verbatim>\<open>receive()\<close> returns 5 and index 0 yields the first payload byte, but
  \<^verbatim>\<open>input_size()\<close> subtracts the header size from the length field in
  \<^verbatim>\<open>unsigned int\<close> and reports \<open>5 - 16 = 2\<^sup>3\<^sup>2 - 11\<close>.
\<close>

theorem receive_echo_input_size:
  "fst (IccomSocket_receive s (Read_bytes (nlmsghdr_bytes 5 @ [0, 1, 2, 3, 4] @ [0, 0, 0]))) = 5
   \<and> input_size (snd (IccomSocket_receive s
         (Read_bytes (nlmsghdr_bytes 5 @ [0, 1, 2, 3, 4] @ [0, 0, 0])))) = 4294967285
   \<and> subscript (snd (IccomSocket_receive s
         (Read_bytes (nlmsghdr_bytes 5 @ [0, 1, 2, 3, 4] @ [0, 0, 0])))) 0 = Some 0"
proof -
  let ?frame = "nlmsghdr_bytes 5 @ [0, 1, 2, 3, 4] @ [0, 0, 0 :: byte]"
  let ?kept = "nlmsghdr_bytes 5 @ [0, 1, 2, 3, 4 :: byte]"
  have r: "IccomSocket_receive s (Read_bytes ?frame) = (5, s\<lparr>m_incoming_data := ?kept\<rparr>)"
    unfolding IccomSocket_receive_alt echo_frame_accepted Let_def
    by (simp add: vec_resize_def length_nlmsghdr_bytes)
  have sz: "input_size (s\<lparr>m_incoming_data := ?kept\<rparr>) = 4294967285"
    by (simp add: input_size_def NLMSG_SPACE_0 length_nlmsghdr_bytes load_nlmsghdr_bytes
        NLMSG_PAYLOAD_def)
  have ix: "subscript (s\<lparr>m_incoming_data := ?kept\<rparr>) 0 = Some 0"
    by (simp add: subscript_def sz NLMSG_LENGTH_0 length_nlmsghdr_bytes nth_append)
  show ?thesis by (simp only: r sz ix fst_conv snd_conv simp_thms)
qed












lemma send_nocopy_written:
  assumes size: "buf_size = NLMSG_SPACE dsz"
    and max: "dsz \<le> ICCOM_SOCKET_MAX_MESSAGE_SIZE_BYTES"
    and pos: "dsz \<noteq> 0"
    and len: "unat buf_size = length b"
    and hdr: "16 \<le> length b"
  shows "iccom_send_data_nocopy fd (Some b) buf_size (NLMSG_LENGTH 0) dsz (Written (length b))
         = \<lparr>send_ret = 0,
            send_buf = Some (nlmsghdr_bytes (ucast dsz) @ drop 16 b),
            send_wire = Some (nlmsghdr_bytes (ucast dsz) @ drop 16 b)\<rparr>"
proof -
  have "take (length b) (nlmsghdr_bytes (ucast dsz) @ drop 16 b)
        = nlmsghdr_bytes (ucast dsz) @ drop 16 b"
    using hdr by (simp add: length_nlmsghdr_bytes)
  moreover have "\<not> ICCOM_SOCKET_MAX_MESSAGE_SIZE_BYTES < dsz" using max by simp
  ultimately show ?thesis
    using pos len
    by (simp add: iccom_send_data_nocopy_def Let_def size [symmetric] sizeof_nlmsghdr_def)
qed

text \<open>
  C2. Round trip. Take a payload \<open>p\<close> of 1 to \<^verbatim>\<open>iccom_get_max_payload_size()\<close> bytes in
  a send buffer laid out as the header comment asks: reserved space up to the payload
  offset, the payload, and padding up to the required buffer size (any bytes; zero
  in particular). With a \<^verbatim>\<open>write\<close> that accepts the whole buffer,
  \<^verbatim>\<open>iccom_send_data_nocopy\<close> returns 0 and the frame it hands over is the header
  carrying the payload length, the payload and the padding. When \<^verbatim>\<open>read\<close> delivers
  that frame in full into any buffer large enough, \<^verbatim>\<open>iccom_receive_data_nocopy\<close>
  returns the payload length, reports the payload offset \<^verbatim>\<open>NLMSG_LENGTH(0)\<close>, and the
  bytes at that offset are \<open>p\<close>.
\<close>

theorem send_receive_roundtrip:
  assumes pos: "0 < length p" and max: "length p \<le> unat iccom_get_max_payload_size"
    and res: "length reserved = unat iccom_get_data_payload_offset"
    and total: "length (reserved @ p @ padding)
                  = unat (iccom_get_required_buffer_size (of_nat (length p)))"
    and room: "NLMSG_SPACE 0 < buffer_size"
    and fits: "length (reserved @ p @ padding) \<le> unat buffer_size"
  shows "send_ret (iccom_send_data_nocopy fd (Some (reserved @ p @ padding))
           (of_nat (length (reserved @ p @ padding))) iccom_get_data_payload_offset
           (of_nat (length p)) (Written (length (reserved @ p @ padding)))) = 0
    \<and> send_wire (iccom_send_data_nocopy fd (Some (reserved @ p @ padding))
           (of_nat (length (reserved @ p @ padding))) iccom_get_data_payload_offset
           (of_nat (length p)) (Written (length (reserved @ p @ padding))))
        = Some (nlmsghdr_bytes (of_nat (length p)) @ p @ padding)
    \<and> recv_ret (iccom_receive_data_nocopy fd' rbuf buffer_size (Some off)
           (Read_bytes (nlmsghdr_bytes (of_nat (length p)) @ p @ padding))) = int (length p)
    \<and> recv_offset (iccom_receive_data_nocopy fd' rbuf buffer_size (Some off)
           (Read_bytes (nlmsghdr_bytes (of_nat (length p)) @ p @ padding)))
        = Some (uint iccom_get_data_payload_offset)
    \<and> take (length p) (drop (unat iccom_get_data_payload_offset)
          (recv_buf (iccom_receive_data_nocopy fd' rbuf buffer_size (Some off)
             (Read_bytes (nlmsghdr_bytes (of_nat (length p)) @ p @ padding))))) = p"
proof -
  let ?n = "length p"
  let ?N = "of_nat ?n :: size_t"
  let ?B = "reserved @ p @ padding"
  let ?F = "nlmsghdr_bytes (of_nat ?n) @ p @ padding"
  from max have n: "?n \<le> 4096"
    by (simp add: iccom_get_max_payload_size_def ICCOM_SOCKET_MAX_MESSAGE_SIZE_BYTES_def)
  then have un: "unat ?N = ?n" by (simp add: unat_of_nat_size)
  from res have r16: "length reserved = 16"
    by (simp add: iccom_get_data_payload_offset_def NLMSG_LENGTH_0)
  from total have tot: "length ?B = unat (NLMSG_SPACE ?N)"
    by (simp only: iccom_get_required_buffer_size_def)
  then have sz: "(of_nat (length ?B) :: size_t) = NLMSG_SPACE ?N"
    by (simp only: of_nat_unat) simp
  have le_max: "?N \<le> ICCOM_SOCKET_MAX_MESSAGE_SIZE_BYTES"
    using n by (simp add: ICCOM_SOCKET_MAX_MESSAGE_SIZE_BYTES_def word_le_nat_alt un)
  have not_zero: "?N \<noteq> 0"
    using pos un by (metis less_not_refl unsigned_0)
  have field: "(ucast ?N :: u32) = of_nat ?n"
    using n by (simp add: ucast_len_field(1))
  have widen: "(ucast (of_nat ?n :: u32) :: size_t) = ?N"
    using n by (simp add: ucast_len_field(2))
  have ul: "unat (of_nat (length ?B) :: size_t) = length ?B"
  proof -
    have "unat (of_nat (length ?B) :: size_t) = unat (NLMSG_SPACE ?N)" by (simp only: sz)
    with tot show ?thesis by simp
  qed
  have h16: "16 \<le> length ?B" using r16 by simp
  have dropB: "drop 16 ?B = p @ padding" using r16 by simp
  have sent: "iccom_send_data_nocopy fd (Some ?B) (of_nat (length ?B))
                 iccom_get_data_payload_offset ?N (Written (length ?B))
              = \<lparr>send_ret = 0, send_buf = Some ?F, send_wire = Some ?F\<rparr>"
    unfolding iccom_get_data_payload_offset_def
    using send_nocopy_written [OF sz le_max not_zero ul h16, of fd]
    by (simp only: field dropB)
  have lenF: "length ?F = length ?B" by (simp add: length_nlmsghdr_bytes r16)
  have fitsF: "length ?F \<le> unat buffer_size" using fits by (simp only: lenF)
  have hF: "16 \<le> length ?F" by (simp add: length_nlmsghdr_bytes)
  have matchF: "NLMSG_SPACE (ucast (load_u32 ?F)) = of_nat (length ?F)"
    by (simp only: load_nlmsghdr_bytes widen lenF sz)
  have ret: "sint (ucast (ucast (load_u32 ?F) :: size_t) :: 32 word) = int ?n"
    using n by (simp only: load_nlmsghdr_bytes widen field) (simp add: sint_len_field)
  have got: "iccom_receive_data_nocopy fd' rbuf buffer_size (Some off) (Read_bytes ?F)
             = \<lparr>recv_ret = int ?n, recv_buf = ?F @ drop (length ?F) rbuf,
                recv_offset = Some 16\<rparr>"
    using receive_nocopy_accepts [OF room fitsF hF matchF, of fd' rbuf off]
    by (simp only: ret)
  have payload: "take ?n (drop 16 (?F @ drop (length ?F) rbuf)) = p"
    by (simp add: length_nlmsghdr_bytes)
  have off16: "uint iccom_get_data_payload_offset = 16" "unat iccom_get_data_payload_offset = 16"
    by (simp_all add: iccom_get_data_payload_offset_def NLMSG_LENGTH_0)
  show ?thesis
    unfolding sent got off16 using payload by simp
qed

theorem send_receive_roundtrip_witness:
  "0 < length [0, 1, 2, 3, 4 :: byte]
   \<and> length [0, 1, 2, 3, 4 :: byte] \<le> unat iccom_get_max_payload_size
   \<and> length (replicate 16 (0 :: byte)) = unat iccom_get_data_payload_offset
   \<and> length (replicate 16 0 @ [0, 1, 2, 3, 4 :: byte] @ [0, 0, 0])
       = unat (iccom_get_required_buffer_size (of_nat (length [0, 1, 2, 3, 4 :: byte])))
   \<and> NLMSG_SPACE 0 < (4112 :: size_t)
   \<and> length (replicate 16 0 @ [0, 1, 2, 3, 4 :: byte] @ [0, 0, 0]) \<le> unat (4112 :: size_t)
   \<and> send_wire (iccom_send_data_nocopy 3 (Some (replicate 16 0 @ [0, 1, 2, 3, 4] @ [0, 0, 0]))
           (of_nat (length (replicate 16 0 @ [0, 1, 2, 3, 4 :: byte] @ [0, 0, 0])))
           iccom_get_data_payload_offset (of_nat (length [0, 1, 2, 3, 4 :: byte]))
           (Written (length (replicate 16 0 @ [0, 1, 2, 3, 4 :: byte] @ [0, 0, 0]))))
       = Some (nlmsghdr_bytes (of_nat (length [0, 1, 2, 3, 4 :: byte])) @ [0, 1, 2, 3, 4] @ [0, 0, 0])
   \<and> recv_ret (iccom_receive_data_nocopy 3 (replicate 4112 0) 4112 (Some 0)
           (Read_bytes (nlmsghdr_bytes (of_nat (length [0, 1, 2, 3, 4 :: byte]))
              @ [0, 1, 2, 3, 4] @ [0, 0, 0])))
       = int (length [0, 1, 2, 3, 4 :: byte])
   \<and> take (length [0, 1, 2, 3, 4 :: byte]) (drop (unat iccom_get_data_payload_offset)
          (recv_buf (iccom_receive_data_nocopy 3 (replicate 4112 0) 4112 (Some 0)
             (Read_bytes (nlmsghdr_bytes (of_nat (length [0, 1, 2, 3, 4 :: byte]))
                @ [0, 1, 2, 3, 4] @ [0, 0, 0])))))
       = [0, 1, 2, 3, 4]"
proof -
  have 1: "0 < length [0, 1, 2, 3, 4 :: byte]" by simp
  have 2: "length [0, 1, 2, 3, 4 :: byte] \<le> unat iccom_get_max_payload_size"
    by (simp add: iccom_get_max_payload_size_def ICCOM_SOCKET_MAX_MESSAGE_SIZE_BYTES_def)
  have 3: "length (replicate 16 (0 :: byte)) = unat iccom_get_data_payload_offset"
    by (simp add: iccom_get_data_payload_offset_def NLMSG_LENGTH_0)
  have 4: "length (replicate 16 0 @ [0, 1, 2, 3, 4 :: byte] @ [0, 0, 0])
       = unat (iccom_get_required_buffer_size (of_nat (length [0, 1, 2, 3, 4 :: byte])))"
    by (simp add: iccom_get_required_buffer_size_def NLMSG_SPACE_alt)
  have 5: "NLMSG_SPACE 0 < (4112 :: size_t)" by (simp add: NLMSG_SPACE_0)
  have 6: "length (replicate 16 0 @ [0, 1, 2, 3, 4 :: byte] @ [0, 0, 0]) \<le> unat (4112 :: size_t)"
    by simp
  from 1 2 3 4 5 6
    send_receive_roundtrip [OF 1 2 3 4 5 6, where fd = 3 and fd' = 3
      and rbuf = "replicate 4112 0" and off = 0]
  show ?thesis by blast
qed

section \<open>Results about the outgoing buffer\<close>

lemma foldl_push_back: "foldl push_back v data = v @ data"
  by (induction data arbitrary: v) (simp_all add: push_back_def)

lemma output_size_shl_vector:
  "output_size (shl_vector s data) =
     (if output_size s + of_nat (length data) \<ge> iccom_get_max_payload_size then output_size s
      else output_size s + of_nat (length data))"
  by (simp add: shl_vector_def output_size_def Let_def)

lemma output_size_shl_char:
  "output_size (shl_char s ch) =
     (if output_size s \<ge> iccom_get_max_payload_size then output_size s else output_size s + 1)"
  by (simp add: shl_char_def output_size_def Let_def)

lemma shl_vector_full_is_noop:
  "output_size s + of_nat (length data) \<ge> iccom_get_max_payload_size \<Longrightarrow> shl_vector s data = s"
  by (simp add: shl_vector_def output_size_def)

text \<open>
  Below the maximum the sizes add up: two vector appends whose total, with what is
  already buffered, stays under 4096 bytes are both taken.
\<close>

lemma below_maximum:
  assumes "unat x + n < 4096"
  shows "\<not> x + of_nat n \<ge> iccom_get_max_payload_size"
    and "unat (x + of_nat n :: size_t) = unat x + n"
proof -
  from assms have n: "unat (of_nat n :: size_t) = n" by (simp add: unat_of_nat_size)
  have "unat (x + of_nat n) = (unat x + unat (of_nat n :: size_t)) mod 2 ^ 64"
    using unat_word_ariths(1) [of x "of_nat n"] by simp
  with assms n show sum: "unat (x + of_nat n :: size_t) = unat x + n" by simp
  with assms show "\<not> x + of_nat n \<ge> iccom_get_max_payload_size"
    by (simp add: iccom_get_max_payload_size_def ICCOM_SOCKET_MAX_MESSAGE_SIZE_BYTES_def
        word_le_nat_alt)
qed

lemma append_twice_below_maximum:
  assumes "unat (output_size s) + length a + length b < 4096"
  shows "output_size (shl_vector (shl_vector s a) b)
         = output_size s + of_nat (length a) + of_nat (length b)"
proof -
  from assms have a: "unat (output_size s) + length a < 4096" by simp
  have first: "output_size (shl_vector s a) = output_size s + of_nat (length a)"
    using below_maximum(1) [OF a] by (simp add: output_size_shl_vector)
  from assms below_maximum(2) [OF a]
  have b: "unat (output_size (shl_vector s a)) + length b < 4096" by (simp add: first)
  show ?thesis
    using below_maximum(1) [OF b] by (simp add: output_size_shl_vector [of "shl_vector s a"] first)
qed

text \<open>
  C3. The claim: after appending \<open>a\<close> and then \<open>b\<close>, \<^verbatim>\<open>output_size()\<close> is
  \<open>len(a) + len(b)\<close> whenever that sum stays within the maximum payload size. The
  vector overload of \<^verbatim>\<open><<\<close> refuses when the new total is greater than or equal to
  the maximum: on the fresh socket, 4095 bytes and then 1 byte make 4096, which is
  within the maximum, yet the second append is dropped and \<^verbatim>\<open>output_size()\<close> stays at
  4095, although \<^verbatim>\<open>output_free_space()\<close> reports one free byte. The character
  overload, given the same single byte, does reach 4096.
\<close>

theorem append_up_to_maximum_is_dropped:
  "unat (of_nat (length (replicate 4095 a)) + of_nat (length [b]) :: size_t)
     \<le> unat iccom_get_max_payload_size
   \<and> output_size (shl_vector sk100 (replicate 4095 a)) = 4095
   \<and> output_free_space (shl_vector sk100 (replicate 4095 a)) = 1
   \<and> output_size (shl_vector (shl_vector sk100 (replicate 4095 a)) [b]) = 4095
   \<and> output_size (shl_char (shl_vector sk100 (replicate 4095 a)) b) = 4096"
proof -
  have fresh: "output_size sk100 = 0" by (simp add: sk100_def output_size_def)
  have max: "iccom_get_max_payload_size = 4096"
    by (simp add: iccom_get_max_payload_size_def ICCOM_SOCKET_MAX_MESSAGE_SIZE_BYTES_def)
  have first: "output_size (shl_vector sk100 (replicate 4095 a)) = 4095"
    by (simp add: output_size_shl_vector fresh max)
  have second: "output_size (shl_vector (shl_vector sk100 (replicate 4095 a)) [b]) = 4095"
    by (simp add: output_size_shl_vector [of "shl_vector sk100 (replicate 4095 a)"] first max)
  have sibling: "output_size (shl_char (shl_vector sk100 (replicate 4095 a)) b) = 4096"
    by (simp add: output_size_shl_char [of "shl_vector sk100 (replicate 4095 a)"] first max)
  have free: "output_free_space (shl_vector sk100 (replicate 4095 a)) = 1"
    using first by (simp add: output_free_space_def Let_def max output_size_def)
  show ?thesis by (simp add: first second sibling free max)
qed

section \<open>Results about sending\<close>

lemma unat_NLMSG_SPACE_payload:
  assumes "dsz \<le> ICCOM_SOCKET_MAX_MESSAGE_SIZE_BYTES"
  shows "16 \<le> unat (NLMSG_SPACE dsz)"
proof -
  from assms have "unat dsz \<le> 4096"
    by (simp add: ICCOM_SOCKET_MAX_MESSAGE_SIZE_BYTES_def word_le_nat_alt)
  then have "unat dsz + 19 < 2 ^ 32" by simp
  from NLMSG_SPACE_bounds(1) [OF this] show ?thesis by simp
qed

lemma unat_of_nat_le: "unat (of_nat n :: size_t) \<le> n"
  by (simp add: unat_of_nat)

text \<open>What a call of the send function can do to the caller's buffer.\<close>

lemma send_nocopy_buf_cases:
  "send_buf (iccom_send_data_nocopy fd (Some b) bsz off dsz w) = Some b
   \<or> (send_buf (iccom_send_data_nocopy fd (Some b) bsz off dsz w)
         = Some (nlmsghdr_bytes (ucast dsz) @ drop 16 b)
       \<and> bsz = NLMSG_SPACE dsz \<and> dsz \<le> ICCOM_SOCKET_MAX_MESSAGE_SIZE_BYTES)"
  by (auto simp add: iccom_send_data_nocopy_def Let_def sizeof_nlmsghdr_def not_less
      split: write_outcome.split)

lemma send_nocopy_keeps_tail:
  assumes "send_buf (iccom_send_data_nocopy fd (Some b) (of_nat (length b)) off dsz w) = Some b'"
  shows "length b' = length b \<and> drop 16 b' = drop 16 b
         \<and> (take 16 b' = take 16 b \<or> take 16 b' = nlmsghdr_bytes (ucast dsz))"
proof -
  from send_nocopy_buf_cases [of fd b "of_nat (length b)" off dsz w] assms
  consider "b' = b"
    | "b' = nlmsghdr_bytes (ucast dsz) @ drop 16 b" "(of_nat (length b) :: size_t) = NLMSG_SPACE dsz"
      "dsz \<le> ICCOM_SOCKET_MAX_MESSAGE_SIZE_BYTES"
    by auto
  then show ?thesis
  proof cases
    case 1
    then show ?thesis by simp
  next
    case 2
    from unat_NLMSG_SPACE_payload [OF 2(3)] 2(2) have "16 \<le> unat (of_nat (length b) :: size_t)"
      by simp
    with unat_of_nat_le [of "length b"] have "16 \<le> length b" by simp
    with 2(1) show ?thesis by (simp add: length_nlmsghdr_bytes)
  qed
qed

lemma send_nocopy_buf_some:
  "\<exists>b'. send_buf (iccom_send_data_nocopy fd (Some b) bsz off dsz w) = Some b'"
  using send_nocopy_buf_cases [of fd b bsz off dsz w] by auto

lemma shl_char_sk100:
  "shl_char sk100 0x41 = sk100\<lparr>m_outgoing_data := replicate 16 0 @ [0x41, 0, 0, 0],
                                m_outgoing_payload_size := 1\<rparr>"
  by (simp add: shl_char_def sk100_def iccom_get_max_payload_size_def
      ICCOM_SOCKET_MAX_MESSAGE_SIZE_BYTES_def push_back_def vec_resize_def NLMSG_SPACE_alt
      numeral_3_eq_3)

text \<open>
  A byte appended to a buffer that ends in padding is pushed behind the padding, and
  the resize that follows cuts it off again: after \<^verbatim>\<open>'A'\<close> and \<^verbatim>\<open>'B'\<close> the payload size
  is 2 and the payload area holds \<^verbatim>\<open>'A'\<close> and a zero byte.
\<close>

lemma second_char_lands_behind_padding:
  "shl_char (shl_char sk100 0x41) 0x42
   = sk100\<lparr>m_outgoing_data := replicate 16 0 @ [0x41, 0, 0, 0], m_outgoing_payload_size := 2\<rparr>"
  by (simp add: shl_char_sk100)
     (simp add: shl_char_def sk100_def iccom_get_max_payload_size_def
      ICCOM_SOCKET_MAX_MESSAGE_SIZE_BYTES_def push_back_def vec_resize_def NLMSG_SPACE_alt
      word_le_nat_alt)

lemma send_sk100_write_failed:
  "IccomSocket_send (shl_char sk100 0x41) True (Write_failed EPIPE)
   = (- EPIPE,
      sk100\<lparr>m_outgoing_data := nlmsghdr_bytes 1 @ [0x41, 0, 0, 0], m_outgoing_payload_size := 1\<rparr>,
      Some (nlmsghdr_bytes 1 @ [0x41, 0, 0, 0]))"
  by (simp add: shl_char_sk100 IccomSocket_send_def iccom_send_data_nocopy_def Let_def
      NLMSG_SPACE_alt NLMSG_LENGTH_0 ICCOM_SOCKET_MAX_MESSAGE_SIZE_BYTES_def sizeof_nlmsghdr_def
      length_nlmsghdr_bytes EPIPE_def)

text \<open>
  C8. The claim: when the transmit fails, the outgoing buffer and its payload size
  are exactly as before the call. The no-copy send writes the frame header into the
  reserved first sixteen bytes of the caller's buffer before it calls \<^verbatim>\<open>write\<close>, so
  after a failed \<^verbatim>\<open>write\<close> on the socket holding the single byte \<^verbatim>\<open>'A'\<close> the buffer
  starts with the length field 1 where it held 0 before.
\<close>

theorem send_failure_rewrites_header:
  "fst (IccomSocket_send (shl_char sk100 0x41) True (Write_failed EPIPE)) < 0
   \<and> m_outgoing_data (fst (snd (IccomSocket_send (shl_char sk100 0x41) True (Write_failed EPIPE))))
       \<noteq> m_outgoing_data (shl_char sk100 0x41)"
proof -
  have "hd (nlmsghdr_bytes 1 @ [0x41, 0, 0, 0]) \<noteq> hd (replicate 16 0 @ [0x41, 0, 0, 0 :: byte])"
    by (simp add: nlmsghdr_bytes_def store_u32_def hd_append)
  then have "nlmsghdr_bytes 1 @ [0x41, 0, 0, 0] \<noteq> replicate 16 0 @ [0x41, 0, 0, 0 :: byte]"
    by metis
  then show ?thesis
    by (simp add: send_sk100_write_failed) (simp add: shl_char_sk100 EPIPE_def)
qed

text \<open>
  C8 as amended. With nothing buffered, \<^verbatim>\<open>send\<close> returns 0 and changes nothing.
  Otherwise, when the transmit fails (negative result), or succeeds with
  \<^verbatim>\<open>reset_message_on_success\<close> false, the payload size, the length of the outgoing
  buffer and every byte of it past the sixteen reserved header bytes (the payload and
  its padding) are as before the call, and the header bytes are either as before or
  the header for the current payload size, which every send writes anew: a retry
  sends the same message. When the transmit succeeds with the flag true, the
  outgoing payload size is 0 and the buffer is cut to the bare header,
  \<^verbatim>\<open>NLMSG_SPACE(0)\<close> bytes. The incoming buffer is never touched.
\<close>

theorem send_keeps_message_or_resets:
  assumes "IccomSocket_send s reset_message_on_success w = (res, s', handed)"
  shows "m_incoming_data s' = m_incoming_data s
    \<and> (if output_size s = 0 then res = 0 \<and> s' = s
        else if res < 0 \<or> \<not> reset_message_on_success
        then output_size s' = output_size s
             \<and> length (m_outgoing_data s') = length (m_outgoing_data s)
             \<and> drop (unat sizeof_nlmsghdr) (m_outgoing_data s')
                 = drop (unat sizeof_nlmsghdr) (m_outgoing_data s)
             \<and> (take (unat sizeof_nlmsghdr) (m_outgoing_data s')
                   = take (unat sizeof_nlmsghdr) (m_outgoing_data s)
                 \<or> take (unat sizeof_nlmsghdr) (m_outgoing_data s')
                   = nlmsghdr_bytes (ucast (output_size s)))
        else output_size s' = 0
             \<and> length (m_outgoing_data s') = unat (iccom_get_required_buffer_size 0))"
proof (cases "m_outgoing_payload_size s = 0")
  case True
  with assms show ?thesis by (simp add: IccomSocket_send_def output_size_def)
next
  case False
  let ?r = "iccom_send_data_nocopy (m_sock_fd s) (Some (m_outgoing_data s))
              (of_nat (length (m_outgoing_data s))) (NLMSG_LENGTH 0)
              (m_outgoing_payload_size s) w"
  obtain b' where b': "send_buf ?r = Some b'"
    using send_nocopy_buf_some by blast
  from send_nocopy_keeps_tail [OF b']
  have tail: "length b' = length (m_outgoing_data s)" "drop 16 b' = drop 16 (m_outgoing_data s)"
    "take 16 b' = take 16 (m_outgoing_data s)
     \<or> take 16 b' = nlmsghdr_bytes (ucast (m_outgoing_payload_size s))"
    by simp_all
  from assms False b' have
    res: "res = send_ret ?r" and
    s': "s' = (if res < 0 \<or> \<not> reset_message_on_success then s\<lparr>m_outgoing_data := b'\<rparr>
              else reset_output (s\<lparr>m_outgoing_data := b'\<rparr>))"
    by (auto simp add: IccomSocket_send_def Let_def split: if_splits)
  show ?thesis
    using False tail
    by (simp add: s' output_size_def sizeof_nlmsghdr_def reset_output_def length_vec_resize
        iccom_get_required_buffer_size_def)
qed

theorem send_keeps_message_witness:
  "IccomSocket_send (shl_char sk100 0x41) True (Write_failed EPIPE)
     = (- EPIPE,
        sk100\<lparr>m_outgoing_data := nlmsghdr_bytes 1 @ [0x41, 0, 0, 0],
              m_outgoing_payload_size := 1\<rparr>,
        Some (nlmsghdr_bytes 1 @ [0x41, 0, 0, 0]))
   \<and> output_size (shl_char sk100 0x41) = 1
   \<and> output_size (sk100\<lparr>m_outgoing_data := nlmsghdr_bytes 1 @ [0x41, 0, 0, 0],
                          m_outgoing_payload_size := 1\<rparr>) = 1
   \<and> length (m_outgoing_data (sk100\<lparr>m_outgoing_data := nlmsghdr_bytes 1 @ [0x41, 0, 0, 0],
                          m_outgoing_payload_size := 1\<rparr>))
       = length (m_outgoing_data (shl_char sk100 0x41))
   \<and> drop (unat sizeof_nlmsghdr)
         (m_outgoing_data (sk100\<lparr>m_outgoing_data := nlmsghdr_bytes 1 @ [0x41, 0, 0, 0],
                          m_outgoing_payload_size := 1\<rparr>))
       = drop (unat sizeof_nlmsghdr) (m_outgoing_data (shl_char sk100 0x41))"
  using send_keeps_message_or_resets [OF send_sk100_write_failed] send_sk100_write_failed
  by (simp add: shl_char_sk100 output_size_def EPIPE_def sizeof_nlmsghdr_def
      length_nlmsghdr_bytes)

end
